theory Spec2Isabelle
  imports Complex_Main
begin

section \<open>Binary64 numbers\<close>

text \<open>
  Every number of \<^verbatim>\<open>mav.py\<close> is an IEEE 754 binary64 value: the \<^verbatim>\<open>float64\<close> fields
  of the ROS messages, Python's \<^verbatim>\<open>float\<close> and numpy's \<^verbatim>\<open>float64\<close>. A value is
  not-a-number, one of the two infinities, or a finite real; \<open>Fin r\<close> is meant for a
  real \<open>r\<close> that binary64 represents, and every operation below returns such a value.
  The two zeros are one value here: their sign shows only in a quotient by zero, which
  takes zero as positive.
\<close>

datatype f64 = NaN | PInf | NInf | Fin real

text \<open>The least power of two that is too large for a finite binary64 value.\<close>

definition f64_huge :: real where
  "f64_huge = 2 powi 1024"

text \<open>
  Rounding to nearest, ties to even, with 53 significant bits: \<open>expo x\<close> is the binary
  exponent of \<open>x\<close> (that of the least normal number for a subnormal \<open>x\<close>), \<open>ulp x\<close> the
  spacing of the binary64 values around \<open>x\<close>. A result of magnitude \<open>2\<^sup>1\<^sup>0\<^sup>2\<^sup>4\<close> or more
  overflows to an infinity.
\<close>

definition expo :: "real \<Rightarrow> int" where
  "expo x = (if \<bar>x\<bar> < 2 powi (- 1022) then - 1022 else \<lfloor>log 2 \<bar>x\<bar>\<rfloor>)"

definition ulp :: "real \<Rightarrow> real" where
  "ulp x = 2 powi (expo x - 52)"

definition round_half_even :: "real \<Rightarrow> int" where
  "round_half_even q =
     (let f = \<lfloor>q\<rfloor>
      in if q - of_int f < 1 / 2 then f
         else if 1 / 2 < q - of_int f then f + 1
         else if even f then f else f + 1)"

definition rnd :: "real \<Rightarrow> f64" where
  "rnd x =
     (let y = of_int (round_half_even (x / ulp x)) * ulp x
      in if f64_huge \<le> \<bar>y\<bar> then (if 0 < x then PInf else NInf) else Fin y)"

text \<open>A decimal literal of the source, such as \<^verbatim>\<open>0.1\<close>, is the binary64 value nearest to it.\<close>

definition py_float :: "real \<Rightarrow> f64" where
  "py_float x = rnd x"

fun is_f64 :: "f64 \<Rightarrow> bool" where
  "is_f64 (Fin r) = (rnd r = Fin r)"
| "is_f64 a = True"

fun fneg :: "f64 \<Rightarrow> f64" where
  "fneg NaN = NaN"
| "fneg PInf = NInf"
| "fneg NInf = PInf"
| "fneg (Fin a) = Fin (- a)"

fun fadd :: "f64 \<Rightarrow> f64 \<Rightarrow> f64" where
  "fadd NaN b = NaN"
| "fadd a NaN = NaN"
| "fadd PInf NInf = NaN"
| "fadd NInf PInf = NaN"
| "fadd PInf b = PInf"
| "fadd NInf b = NInf"
| "fadd a PInf = PInf"
| "fadd a NInf = NInf"
| "fadd (Fin a) (Fin b) = rnd (a + b)"

definition fsub :: "f64 \<Rightarrow> f64 \<Rightarrow> f64" where
  "fsub a b = fadd a (fneg b)"

fun fmul :: "f64 \<Rightarrow> f64 \<Rightarrow> f64" where
  "fmul NaN b = NaN"
| "fmul a NaN = NaN"
| "fmul (Fin a) (Fin b) = rnd (a * b)"
| "fmul PInf (Fin b) = (if b = 0 then NaN else if 0 < b then PInf else NInf)"
| "fmul NInf (Fin b) = (if b = 0 then NaN else if 0 < b then NInf else PInf)"
| "fmul (Fin a) PInf = (if a = 0 then NaN else if 0 < a then PInf else NInf)"
| "fmul (Fin a) NInf = (if a = 0 then NaN else if 0 < a then NInf else PInf)"
| "fmul PInf PInf = PInf"
| "fmul PInf NInf = NInf"
| "fmul NInf PInf = NInf"
| "fmul NInf NInf = PInf"

text \<open>numpy's division: a quotient by zero is an infinity or not-a-number, never an exception.\<close>

fun fdiv :: "f64 \<Rightarrow> f64 \<Rightarrow> f64" where
  "fdiv NaN b = NaN"
| "fdiv a NaN = NaN"
| "fdiv (Fin a) (Fin b) =
     (if b = 0 then (if a = 0 then NaN else if 0 < a then PInf else NInf) else rnd (a / b))"
| "fdiv (Fin a) b = Fin 0"
| "fdiv PInf (Fin b) = (if 0 \<le> b then PInf else NInf)"
| "fdiv NInf (Fin b) = (if 0 \<le> b then NInf else PInf)"
| "fdiv a b = NaN"

text \<open>\<^verbatim>\<open>a < b\<close>: false as soon as one side is not-a-number.\<close>

fun flt :: "f64 \<Rightarrow> f64 \<Rightarrow> bool" where
  "flt NaN b = False"
| "flt a NaN = False"
| "flt (Fin a) (Fin b) = (a < b)"
| "flt a NInf = False"
| "flt PInf b = False"
| "flt a b = True"

fun fabs :: "f64 \<Rightarrow> f64" where
  "fabs NaN = NaN"
| "fabs PInf = PInf"
| "fabs NInf = PInf"
| "fabs (Fin a) = Fin \<bar>a\<bar>"

text \<open>numpy's square root: not-a-number below zero.\<close>

fun np_sqrt :: "f64 \<Rightarrow> f64" where
  "np_sqrt NaN = NaN"
| "np_sqrt PInf = PInf"
| "np_sqrt NInf = NaN"
| "np_sqrt (Fin a) = (if a < 0 then NaN else rnd (sqrt a))"

text \<open>The values that a square root accepts: everything but the negative ones.\<close>

fun not_negative :: "f64 \<Rightarrow> bool" where
  "not_negative NInf = False"
| "not_negative (Fin a) = (0 \<le> a)"
| "not_negative a = True"

text \<open>What a call of the source can raise.\<close>

datatype py_error = ValueError | ServiceException

text \<open>\<^verbatim>\<open>math.sqrt\<close>: a \<^verbatim>\<open>ValueError\<close> below zero.\<close>

fun math_sqrt :: "f64 \<Rightarrow> py_error + f64" where
  "math_sqrt NaN = Inr NaN"
| "math_sqrt PInf = Inr PInf"
| "math_sqrt NInf = Inl ValueError"
| "math_sqrt (Fin a) = (if a < 0 then Inl ValueError else Inr (rnd (sqrt a)))"

section \<open>Messages\<close>

text \<open>
  The ROS messages read and written by \<^verbatim>\<open>mav.py\<close>. The \<^verbatim>\<open>header\<close> of the stamped
  messages is left out, since no function of \<^verbatim>\<open>mav.py\<close> reads or writes it.
\<close>

record point =
  pt_x :: f64
  pt_y :: f64
  pt_z :: f64

record quaternion =
  quat_x :: f64
  quat_y :: f64
  quat_z :: f64
  quat_w :: f64

record pose =
  position :: point
  orientation :: quaternion

record pose_stamped =
  pose :: pose

record vector3 =
  vec_x :: f64
  vec_y :: f64
  vec_z :: f64

record twist =
  twist_linear :: vector3
  twist_angular :: vector3

record twist_stamped =
  twist :: twist

text \<open>\<^verbatim>\<open>mavros_msgs.msg.State\<close>, the four fields that \<^verbatim>\<open>_state_callback\<close> copies.\<close>

record uav_state =
  connected :: bool
  armed :: bool
  guided :: bool
  mode :: string

text \<open>
  \<^verbatim>\<open>rospy.Time\<close> and \<^verbatim>\<open>rospy.Duration\<close> hold integer seconds and nanoseconds;
  both are a number of nanoseconds here, so \<^verbatim>\<open>rospy.Duration(1.0)\<close> is \<open>10\<^sup>9\<close>.
\<close>

type_synonym time = int

definition Duration_1_0 :: int where
  "Duration_1_0 = 1000000000"

text \<open>The messages built with no argument: every number 0, every flag false, every string empty.\<close>

definition Point0 :: point where
  "Point0 = \<lparr>pt_x = Fin 0, pt_y = Fin 0, pt_z = Fin 0\<rparr>"

definition Quaternion0 :: quaternion where
  "Quaternion0 = \<lparr>quat_x = Fin 0, quat_y = Fin 0, quat_z = Fin 0, quat_w = Fin 0\<rparr>"

definition PoseStamped0 :: pose_stamped where
  "PoseStamped0 = \<lparr>pose = \<lparr>position = Point0, orientation = Quaternion0\<rparr>\<rparr>"

definition Vector30 :: vector3 where
  "Vector30 = \<lparr>vec_x = Fin 0, vec_y = Fin 0, vec_z = Fin 0\<rparr>"

definition TwistStamped0 :: twist_stamped where
  "TwistStamped0 = \<lparr>twist = \<lparr>twist_linear = Vector30, twist_angular = Vector30\<rparr>\<rparr>"

definition State0 :: uav_state where
  "State0 = \<lparr>connected = False, armed = False, guided = False, mode = ''''\<rparr>"

section \<open>What the controller sends\<close>

text \<open>
  The outbound channels: the local setpoint publisher and the three service proxies.
  \<open>SetMode b m\<close> is \<^verbatim>\<open>set_mode(b, m)\<close>, \<open>SetArming v\<close> is \<^verbatim>\<open>set_arming(v)\<close>,
  \<open>SetCommand c p\<close> is \<^verbatim>\<open>set_command(command=c, param1=p)\<close>. Text printed to the
  console is not a request and is not recorded.
\<close>

datatype request =
  Publish pose_stamped
| SetMode nat string
| SetArming bool
| SetCommand nat real

text \<open>
  A call of a service proxy either returns the service's response, whose flag says
  whether the vehicle accepted the request, or raises \<^verbatim>\<open>rospy.ServiceException\<close>.
\<close>

datatype answer = Returns bool | Raises

text \<open>
  One mode or arm request as an observer of the channel records it: the clock reading
  right after the call, the request and how the call ended. When the call returns, the
  reading is the one the code stores in \<^verbatim>\<open>last_request\<close>.
\<close>

record call =
  stamp :: time
  req :: request
  ended :: answer

section \<open>Three-element arrays\<close>

text \<open>
  The numpy arrays of \<^verbatim>\<open>distance_limited_target\<close>, with the operations it applies,
  each element by element. \<^verbatim>\<open>np.linalg.norm\<close> is the square root of the dot product of
  the array with itself; the products are summed from left to right here (numpy leaves
  the order to its linear-algebra library).
\<close>

type_synonym arr = "f64 \<times> f64 \<times> f64"

fun arr_sub :: "arr \<Rightarrow> arr \<Rightarrow> arr" where
  "arr_sub (a1, a2, a3) (b1, b2, b3) = (fsub a1 b1, fsub a2 b2, fsub a3 b3)"

fun arr_add :: "arr \<Rightarrow> arr \<Rightarrow> arr" where
  "arr_add (a1, a2, a3) (b1, b2, b3) = (fadd a1 b1, fadd a2 b2, fadd a3 b3)"

fun arr_div :: "arr \<Rightarrow> f64 \<Rightarrow> arr" where
  "arr_div (a1, a2, a3) r = (fdiv a1 r, fdiv a2 r, fdiv a3 r)"

fun linalg_norm :: "arr \<Rightarrow> f64" where
  "linalg_norm (a1, a2, a3) = np_sqrt (fadd (fadd (fmul a1 a1) (fmul a2 a2)) (fmul a3 a3))"

section \<open>The helpers of message_tools\<close>

text \<open>
  Modelled from the spec: \<^verbatim>\<open>point_to_arr\<close> and \<^verbatim>\<open>arr_to_point\<close> of
  \<^verbatim>\<open>message_tools\<close>, which is not among the sources. The spec calls them a lossless
  conversion between a named-field point and a 3-element numeric vector.
\<close>

definition point_to_arr :: "point \<Rightarrow> arr" where
  "point_to_arr p = (pt_x p, pt_y p, pt_z p)"

fun arr_to_point :: "arr \<Rightarrow> point" where
  "arr_to_point (a1, a2, a3) = \<lparr>pt_x = a1, pt_y = a2, pt_z = a3\<rparr>"

text \<open>
  Modelled from the spec: \<^verbatim>\<open>create_setpoint_message_pos_ori\<close> of \<^verbatim>\<open>message_tools\<close>.
  The spec's limiter returns the pair of the clipped position and the full target
  orientation as the pose command.
\<close>

definition create_setpoint_message_pos_ori :: "point \<Rightarrow> quaternion \<Rightarrow> pose_stamped" where
  "create_setpoint_message_pos_ori pos ori = \<lparr>pose = \<lparr>position = pos, orientation = ori\<rparr>\<rparr>"

text \<open>
  Modelled from the spec: \<^verbatim>\<open>create_setpoint_message_pos_yaw\<close> of \<^verbatim>\<open>message_tools\<close>,
  the pose command at a position with the orientation of a yaw angle. The two
  conversions between a yaw angle and a quaternion (the spec's \<open>orientationToYaw\<close> and
  \<open>yawToOrientation\<close>) are not among the sources either; every definition that needs
  one takes it as its first argument, so what is proved holds for every implementation
  of them that returns a value.
\<close>

definition create_setpoint_message_pos_yaw ::
    "(f64 \<Rightarrow> quaternion) \<Rightarrow> point \<Rightarrow> f64 \<Rightarrow> pose_stamped" where
  "create_setpoint_message_pos_yaw yaw_to_orientation pos yaw =
     \<lparr>pose = \<lparr>position = pos, orientation = yaw_to_orientation yaw\<rparr>\<rparr>"

text \<open>
  Modelled from the spec: its round trip between the two conversions, at one yaw angle.
  The spec calls \<open>yawToOrientation\<close> the inverse of \<open>orientationToYaw\<close>.
\<close>

definition round_trip :: "(quaternion \<Rightarrow> f64) \<Rightarrow> (f64 \<Rightarrow> quaternion) \<Rightarrow> f64 \<Rightarrow> bool" where
  "round_trip orientation_to_yaw yaw_to_orientation yaw =
     (orientation_to_yaw (yaw_to_orientation yaw) = yaw)"

section \<open>The controller\<close>

text \<open>
  The fields of \<^verbatim>\<open>Mav\<close> that its methods read or write after construction. The
  rate object, the publisher, the service proxies and the subscribers are set once in
  \<^verbatim>\<open>__init__\<close> and never reassigned.
\<close>

record mav =
  current_pose :: pose_stamped
  current_velocity :: twist_stamped
  target_pose :: pose_stamped
  UAV_state :: uav_state
  last_request :: time
  max_speed :: f64
  fly :: bool

text \<open>
  What the outside world supplies while one vehicle-state update is handled: the clock
  reading at the guard, how the call of each service ends, and the clock reading right
  after each call. When a call returns, the code takes that reading with
  \<^verbatim>\<open>rospy.Time.now()\<close>. What belongs to a call that is not made is not looked at.
\<close>

record service_io =
  now_guard :: time
  mode_answer :: answer
  now_mode :: time
  arm_answer :: answer
  now_arm :: time

text \<open>
  What a method of the state machine leaves behind: the controller, the calls it made,
  and whether it ended by an exception. No method of \<^verbatim>\<open>mav.py\<close> catches an
  exception, so a service call that raises ends the whole update; what was assigned
  before stays assigned.
\<close>

record outcome =
  after :: mav
  calls :: "call list"
  raised :: bool

text \<open>The records of the two calls of one update.\<close>

definition mode_call :: "string \<Rightarrow> service_io \<Rightarrow> call" where
  "mode_call m io = \<lparr>stamp = now_mode io, req = SetMode 0 m, ended = mode_answer io\<rparr>"

definition arm_call :: "service_io \<Rightarrow> call" where
  "arm_call io = \<lparr>stamp = now_arm io, req = SetArming True, ended = arm_answer io\<rparr>"

subsection \<open>Construction\<close>

text \<open>
  The steps of \<^verbatim>\<open>__init__\<close> that touch the middleware, in source order: the namespace,
  the publisher with its queue size, what is published, the three service proxies and
  the three subscribers, each by its topic below the namespace.
\<close>

datatype init_step =
  Set_namespace string
| Get_pub_position_local nat
| Sent request
| Service_proxy string
| Subscriber string

text \<open>\<^verbatim>\<open>for i in range(0, n): self._setpoint_local_pub.publish(p)\<close>\<close>

fun publish_burst :: "nat \<Rightarrow> pose_stamped \<Rightarrow> init_step list" where
  "publish_burst 0 p = []"
| "publish_burst (Suc n) p = Sent (Publish p) # publish_burst n p"

text \<open>
  \<^verbatim>\<open>Mav.__init__\<close>: the arguments are the namespace and the clock reading of its
  \<^verbatim>\<open>rospy.Time.now()\<close>; the result is the new controller and the steps taken.
\<close>

definition Mav_init :: "string \<Rightarrow> time \<Rightarrow> mav \<times> init_step list" where
  "Mav_init namespace now =
     (let self = \<lparr>current_pose = PoseStamped0,
                  current_velocity = TwistStamped0,
                  target_pose = PoseStamped0,
                  UAV_state = State0,
                  last_request = now,
                  max_speed = Fin 1,
                  fly = True\<rparr>
      in (self,
          [Set_namespace namespace, Get_pub_position_local 10]
          @ publish_burst 100 (target_pose self)
          @ [Service_proxy ''cmd/arming'', Service_proxy ''mavros/cmd/command'',
             Service_proxy ''set_mode'']
          @ [Subscriber ''state'', Subscriber ''local_position/pose'',
             Subscriber ''local_position/velocity_body'']))"

fun is_publish :: "init_step \<Rightarrow> bool" where
  "is_publish (Sent (Publish p)) = True"
| "is_publish s = False"

subsection \<open>The flight state machine\<close>

text \<open>The methods whose Python name starts with an underscore lose it here.\<close>

definition quiet :: "mav \<Rightarrow> outcome" where
  "quiet self = \<lparr>after = self, calls = [], raised = False\<rparr>"

text \<open>
  One service call followed by \<^verbatim>\<open>self.last_request = rospy.Time.now()\<close>: the
  assignment is reached only when the call returns, and then whatever the answer.
\<close>

definition call_then_stamp :: "mav \<Rightarrow> request \<Rightarrow> answer \<Rightarrow> time \<Rightarrow> outcome" where
  "call_then_stamp self r a t =
     (case a of
        Raises \<Rightarrow> \<lparr>after = self, calls = [\<lparr>stamp = t, req = r, ended = a\<rparr>], raised = True\<rparr>
      | Returns b \<Rightarrow>
          \<lparr>after = self\<lparr>last_request := t\<rparr>, calls = [\<lparr>stamp = t, req = r, ended = a\<rparr>],
           raised = False\<rparr>)"

definition autoland :: "mav \<Rightarrow> service_io \<Rightarrow> outcome" where
  "autoland self io =
     (if now_guard io - last_request self > Duration_1_0 then
        if mode (UAV_state self) \<noteq> ''AUTO.LAND'' then
          call_then_stamp self (SetMode 0 ''AUTO.LAND'') (mode_answer io) (now_mode io)
        else quiet self
      else quiet self)"

definition arm_and_offboard :: "mav \<Rightarrow> service_io \<Rightarrow> outcome" where
  "arm_and_offboard self io =
     (if now_guard io - last_request self > Duration_1_0 then
        let first =
              (if mode (UAV_state self) \<noteq> ''OFFBOARD'' then
                 call_then_stamp self (SetMode 0 ''OFFBOARD'') (mode_answer io) (now_mode io)
               else quiet self)
        in if raised first then first
           else
             let second =
                   (if \<not> armed (UAV_state (after first)) then
                      call_then_stamp (after first) (SetArming True) (arm_answer io) (now_arm io)
                    else quiet (after first))
             in \<lparr>after = after second, calls = calls first @ calls second,
                 raised = raised second\<rparr>
      else quiet self)"

definition set_states :: "mav \<Rightarrow> service_io \<Rightarrow> outcome" where
  "set_states self io = (if fly self then arm_and_offboard self io else autoland self io)"

definition state_callback :: "mav \<Rightarrow> uav_state \<Rightarrow> service_io \<Rightarrow> outcome" where
  "state_callback self topic io =
     set_states
       (self\<lparr>UAV_state := (UAV_state self)\<lparr>armed := armed topic,
                                            connected := connected topic,
                                            mode := mode topic,
                                            guided := guided topic\<rparr>\<rparr>) io"

subsection \<open>The setpoint limiter\<close>

definition distance_limited_target :: "mav \<Rightarrow> pose_stamped" where
  "distance_limited_target self =
     (let point = position (pose (target_pose self));
          current = point_to_arr (position (pose (current_pose self)));
          target_arr = point_to_arr point;
          diff = arr_sub target_arr current;
          diffsize = linalg_norm diff;
          max_dist = max_speed self
      in if flt diffsize max_dist then target_pose self
         else
           let ratio = fdiv diffsize max_dist;
               true_target = arr_add current (arr_div diff ratio);
               new_point = arr_to_point true_target
           in create_setpoint_message_pos_ori new_point (orientation (pose (target_pose self))))"

definition publish_target_pose :: "mav \<Rightarrow> request list" where
  "publish_target_pose self = [Publish (distance_limited_target self)]"

definition local_position_callback :: "mav \<Rightarrow> pose_stamped \<Rightarrow> mav \<times> request list" where
  "local_position_callback self topic =
     (let self1 = self\<lparr>current_pose := topic\<rparr> in (self1, publish_target_pose self1))"

definition local_velocity_callback :: "mav \<Rightarrow> twist_stamped \<Rightarrow> mav \<times> request list" where
  "local_velocity_callback self topic = (self\<lparr>current_velocity := topic\<rparr>, [])"

subsection \<open>The arrival detector\<close>

text \<open>
  The three getters that call \<^verbatim>\<open>math.sqrt\<close> return its exception or their number;
  \<open>has_arrived\<close> passes the first exception on, as the source does by not catching it.
\<close>

definition get_pos_error :: "mav \<Rightarrow> py_error + f64" where
  "get_pos_error self =
     (let sp = position (pose (target_pose self));
          cp = position (pose (current_pose self));
          x = fsub (pt_x sp) (pt_x cp);
          y = fsub (pt_y sp) (pt_y cp);
          z = fsub (pt_z sp) (pt_z cp);
          dist = math_sqrt (fadd (fadd (fmul x x) (fmul y y)) (fmul z z))
      in dist)"

definition get_yaw_error :: "(quaternion \<Rightarrow> f64) \<Rightarrow> mav \<Rightarrow> f64" where
  "get_yaw_error orientation_to_yaw self =
     (let sy = orientation_to_yaw (orientation (pose (target_pose self)));
          cy = orientation_to_yaw (orientation (pose (current_pose self)));
          yaw = fabs (fsub sy cy)
      in yaw)"

definition get_velocity_abs :: "mav \<Rightarrow> py_error + f64" where
  "get_velocity_abs self =
     (let vel = twist_linear (twist (current_velocity self));
          x = vec_x vel;
          y = vec_y vel;
          z = vec_z vel;
          norm = math_sqrt (fadd (fadd (fmul x x) (fmul y y)) (fmul z z))
      in norm)"

definition get_ang_vel_abs :: "mav \<Rightarrow> py_error + f64" where
  "get_ang_vel_abs self =
     (let vel = twist_angular (twist (current_velocity self));
          x = vec_x vel;
          y = vec_y vel;
          z = vec_z vel;
          norm = math_sqrt (fadd (fadd (fmul x x) (fmul y y)) (fmul z z))
      in norm)"

definition has_arrived :: "(quaternion \<Rightarrow> f64) \<Rightarrow> mav \<Rightarrow> py_error + bool" where
  "has_arrived orientation_to_yaw self =
     (let maxdist = py_float 0.5;
          maxang = py_float 0.1;
          max_vel = py_float 0.2;
          max_angvel = py_float 0.05
      in case get_pos_error self of
           Inl e \<Rightarrow> Inl e
         | Inr pos_error \<Rightarrow>
             let posgood = flt pos_error maxdist;
                 anggood = flt (get_yaw_error orientation_to_yaw self) maxang
             in case get_velocity_abs self of
                  Inl e \<Rightarrow> Inl e
                | Inr velocity_abs \<Rightarrow>
                    let velgood = flt velocity_abs max_vel
                    in case get_ang_vel_abs self of
                         Inl e \<Rightarrow> Inl e
                       | Inr ang_vel_abs \<Rightarrow>
                           let angvelgood = flt ang_vel_abs max_angvel
                           in if posgood \<and> anggood \<and> velgood \<and> angvelgood then Inr True
                              else Inr False)"

subsection \<open>Commands of the mission layer\<close>

definition set_target_pose :: "mav \<Rightarrow> pose_stamped \<Rightarrow> mav \<times> request list" where
  "set_target_pose self pose_arg = (self\<lparr>target_pose := pose_arg\<rparr>, [])"

definition set_target_pos ::
    "(quaternion \<Rightarrow> f64) \<Rightarrow> (f64 \<Rightarrow> quaternion) \<Rightarrow> mav \<Rightarrow> point \<Rightarrow> mav \<times> request list" where
  "set_target_pos orientation_to_yaw yaw_to_orientation self pos =
     (let yaw = orientation_to_yaw (orientation (pose (target_pose self)));
          pose_new = create_setpoint_message_pos_yaw yaw_to_orientation pos yaw
      in set_target_pose self pose_new)"

definition set_target_yaw :: "(f64 \<Rightarrow> quaternion) \<Rightarrow> mav \<Rightarrow> f64 \<Rightarrow> mav \<times> request list" where
  "set_target_yaw yaw_to_orientation self yaw =
     (let pos = position (pose (target_pose self));
          pose_new = create_setpoint_message_pos_yaw yaw_to_orientation pos yaw
      in set_target_pose self pose_new)"

definition land :: "mav \<Rightarrow> mav" where
  "land self = self\<lparr>fly := False\<rparr>"

definition takeoff :: "mav \<Rightarrow> mav" where
  "takeoff self = self\<lparr>fly := True\<rparr>"

text \<open>
  Whether the call of \<^verbatim>\<open>set_command\<close> returns or raises, it is made once and no
  field is assigned.
\<close>

definition deploy_parachute :: "mav \<Rightarrow> mav \<times> request list" where
  "deploy_parachute self = (self, [SetCommand 185 1])"

section \<open>Sequences of updates\<close>

text \<open>
  The transport delivers vehicle-state updates one at a time, and the mission layer may
  call \<^verbatim>\<open>land\<close> or \<^verbatim>\<open>takeoff\<close> between two of them. \<open>run\<close> handles a list of such
  events in order and collects the calls. An update that ends by an exception does not
  stop the node: rospy logs the exception of a subscriber callback and delivers the next
  message. The remaining operations write none of \<open>fly\<close>, \<open>UAV_state\<close> and
  \<open>last_request\<close>.
\<close>

datatype event =
  State_update uav_state service_io
| Land
| Takeoff

fun step :: "mav \<Rightarrow> event \<Rightarrow> mav \<times> call list" where
  "step self (State_update topic io) =
     (after (state_callback self topic io), calls (state_callback self topic io))"
| "step self Land = (land self, [])"
| "step self Takeoff = (takeoff self, [])"

fun run :: "mav \<Rightarrow> event list \<Rightarrow> mav \<times> call list" where
  "run self [] = (self, [])"
| "run self (e # es) =
     (let (self1, out1) = step self e;
          (self2, out2) = run self1 es
      in (self2, out1 @ out2))"

text \<open>The clock does not run backwards while one update is handled.\<close>

definition clock_ok :: "service_io \<Rightarrow> bool" where
  "clock_ok io = (now_guard io \<le> now_mode io \<and> now_mode io \<le> now_arm io)"

fun event_ok :: "event \<Rightarrow> bool" where
  "event_ok (State_update topic io) = clock_ok io"
| "event_ok Land = True"
| "event_ok Takeoff = True"

text \<open>No service call of the update raises.\<close>

fun no_raise :: "event \<Rightarrow> bool" where
  "no_raise (State_update topic io) = (mode_answer io \<noteq> Raises \<and> arm_answer io \<noteq> Raises)"
| "no_raise Land = True"
| "no_raise Takeoff = True"

fun is_mode_request :: "request \<Rightarrow> bool" where
  "is_mode_request (SetMode b m) = True"
| "is_mode_request r = False"

fun is_arm_request :: "request \<Rightarrow> bool" where
  "is_arm_request (SetArming v) = True"
| "is_arm_request r = False"

definition returned :: "call \<Rightarrow> bool" where
  "returned c = (ended c \<noteq> Raises)"

text \<open>
  The calls with a request of one kind whose stamp lies in the window of one second that
  starts at \<open>a\<close>; \<open>returned_in_window\<close> keeps those that returned.
\<close>

definition in_window :: "(request \<Rightarrow> bool) \<Rightarrow> time \<Rightarrow> call list \<Rightarrow> call list" where
  "in_window kind a out =
     filter (\<lambda>c. kind (req c) \<and> a \<le> stamp c \<and> stamp c \<le> a + Duration_1_0) out"

definition returned_in_window :: "(request \<Rightarrow> bool) \<Rightarrow> time \<Rightarrow> call list \<Rightarrow> call list" where
  "returned_in_window kind a out = filter returned (in_window kind a out)"

section \<open>The limiter in exact arithmetic\<close>

text \<open>
  The spec's \<open>computeBoundedTarget\<close>, written from its words over the real numbers, to
  compare the code with: \<open>diff = target - current\<close>, \<open>dist = |diff|\<close>; the target when
  \<open>dist < maxStep\<close>, otherwise \<open>current + diff * (maxStep / dist)\<close>.
\<close>

type_synonym vec = "real \<times> real \<times> real"




fun vec_norm :: "vec \<Rightarrow> real" where
  "vec_norm (a1, a2, a3) = sqrt (a1 * a1 + a2 * a2 + a3 * a3)"





section \<open>Example states\<close>


definition hover :: mav where
  "hover = fst (Mav_init ''mavros'' 0)"

definition target_at :: "f64 \<Rightarrow> f64 \<Rightarrow> f64 \<Rightarrow> quaternion \<Rightarrow> pose_stamped" where
  "target_at x y z q = \<lparr>pose = \<lparr>position = \<lparr>pt_x = x, pt_y = y, pt_z = z\<rparr>, orientation = q\<rparr>\<rparr>"

definition heading_for :: "f64 \<Rightarrow> f64 \<Rightarrow> f64 \<Rightarrow> mav" where
  "heading_for x y z = fst (set_target_pose hover (target_at x y z Quaternion0))"

definition drifting :: "f64 \<Rightarrow> f64 \<Rightarrow> twist_stamped" where
  "drifting v w = \<lparr>twist = \<lparr>twist_linear = \<lparr>vec_x = v, vec_y = Fin 0, vec_z = Fin 0\<rparr>,
                             twist_angular = \<lparr>vec_x = Fin 0, vec_y = Fin 0, vec_z = w\<rparr>\<rparr>\<rparr>"

text \<open>Toy conversions between a yaw angle and a quaternion that satisfy the round trip.\<close>

definition yaw_in_z :: "f64 \<Rightarrow> quaternion" where
  "yaw_in_z yaw = \<lparr>quat_x = Fin 0, quat_y = Fin 0, quat_z = yaw, quat_w = Fin 1\<rparr>"

text \<open>
  The spec's example for the arrival detector: 0.4 m from the target, 0.05 rad off its
  yaw, turning at 0.01 rad/s and moving at the given speed.
\<close>

definition spec_example :: "f64 \<Rightarrow> mav" where
  "spec_example v =
     fst (local_velocity_callback
            (fst (set_target_pose hover
                    (target_at (py_float 0.4) (Fin 0) (Fin 0) (yaw_in_z (py_float 0.05)))))
            (drifting v (py_float 0.01)))"

definition lost_fix :: mav where
  "lost_fix =
     hover\<lparr>current_pose :=
              \<lparr>pose = \<lparr>position = \<lparr>pt_x = NaN, pt_y = Fin 0, pt_z = Fin 0\<rparr>,
                       orientation = Quaternion0\<rparr>\<rparr>\<rparr>"

definition io_at :: "time \<Rightarrow> answer \<Rightarrow> service_io" where
  "io_at t a = \<lparr>now_guard = t, mode_answer = a, now_mode = t + 1, arm_answer = a, now_arm = t + 2\<rparr>"

definition three_updates :: "event list" where
  "three_updates = [State_update State0 (io_at 2000000000 (Returns True)),
                    State_update State0 (io_at 2500000000 (Returns True)),
                    Land,
                    State_update State0 (io_at 3500000000 (Returns True))]"

definition two_updates_first_raises :: "event list" where
  "two_updates_first_raises = [State_update State0 (io_at 2000000000 Raises),
                               State_update State0 (io_at 2100000000 (Returns True))]"

lemmas example_defs = hover_def Mav_init_def target_at_def heading_for_def
  drifting_def spec_example_def yaw_in_z_def lost_fix_def io_at_def three_updates_def
  two_updates_first_raises_def set_target_pose_def
  local_velocity_callback_def PoseStamped0_def Point0_def Quaternion0_def State0_def
  TwistStamped0_def Vector30_def

section \<open>Rounding\<close>

text \<open>
  How \<open>rnd\<close> is evaluated: a number with binary exponent \<open>e\<close> rounds to the
  multiple \<open>k * 2\<^sup>e\<^sup>-\<^sup>5\<^sup>2\<close> that is less than half a spacing away, a number that is
  such a multiple is not changed, and a number from \<open>2\<^sup>1\<^sup>0\<^sup>2\<^sup>4\<close> on overflows.
\<close>

lemma f64_huge_pos: "0 < f64_huge"
  by (simp add: f64_huge_def)

lemma pow2_le_huge: "e \<le> 1024 \<Longrightarrow> (2::real) powi e \<le> f64_huge"
  unfolding f64_huge_def by (rule power_int_increasing) simp_all

lemma expo_eq:
  assumes "2 powi e \<le> \<bar>x\<bar>" and "\<bar>x\<bar> < 2 powi (e + 1)" and "- 1022 \<le> e"
  shows "expo x = e"
proof -
  have pos: "0 < \<bar>x\<bar>"
  proof -
    have "(0::real) < 2 powi e" by simp
    with assms(1) show ?thesis by linarith
  qed
  have lo: "(2::real) powi (- 1022) \<le> 2 powi e"
    using assms(3) by (intro power_int_increasing) auto
  then have big: "\<not> \<bar>x\<bar> < 2 powi (- 1022)" using assms(1) by linarith
  have p1: "(2::real) powr (of_int e) = 2 powi e"
    by (simp add: powr_real_of_int')
  have p2: "(2::real) powr (of_int e + 1) = 2 powi (e + 1)"
    using powr_real_of_int' [of "2::real" "e + 1"] by simp
  have "\<lfloor>log 2 \<bar>x\<bar>\<rfloor> = e"
    using pos assms(1,2) by (simp add: floor_log_eq_powr_iff p1 p2 del: abs_le_zero_iff)
  with big show ?thesis unfolding expo_def by simp
qed

lemma ulp_pos: "0 < ulp x"
  by (simp add: ulp_def)

lemma round_half_even_int: "round_half_even (of_int k) = k"
  by (simp add: round_half_even_def)

lemma round_half_even_near:
  assumes "of_int k - 1 / 2 < q" and "q < of_int k + 1 / 2"
  shows "round_half_even q = k"
proof (cases "of_int k \<le> q")
  case True
  then have "\<lfloor>q\<rfloor> = k" using assms(2) by (intro floor_unique) auto
  then show ?thesis using assms(2) by (simp add: round_half_even_def)
next
  case False
  then have "\<lfloor>q\<rfloor> = k - 1" using assms(1) by (intro floor_unique) auto
  then show ?thesis using assms(1) False by (simp add: round_half_even_def)
qed

lemma round_half_even_bounds: "\<lfloor>q\<rfloor> \<le> round_half_even q \<and> round_half_even q \<le> \<lfloor>q\<rfloor> + 1"
  by (simp add: round_half_even_def Let_def)

lemma round_half_even_ge:
  assumes "of_int n \<le> q"
  shows "n \<le> round_half_even q"
proof -
  from assms have "n \<le> \<lfloor>q\<rfloor>" by (simp add: le_floor_iff)
  with round_half_even_bounds [of q] show ?thesis by linarith
qed

lemma round_half_even_le:
  assumes "q \<le> of_int n"
  shows "round_half_even q \<le> n"
proof (cases "q = of_int n")
  case True
  then show ?thesis by (simp add: round_half_even_int)
next
  case False
  with assms have "q < of_int n" by simp
  then have "\<lfloor>q\<rfloor> < n" by (simp add: floor_less_iff)
  with round_half_even_bounds [of q] show ?thesis by linarith
qed

lemma rnd_zero: "rnd 0 = Fin 0"
  using f64_huge_pos by (simp add: rnd_def round_half_even_def)

lemma rnd_exact:
  assumes "2 powi e \<le> \<bar>x\<bar>" and "\<bar>x\<bar> < 2 powi (e + 1)" and "- 1022 \<le> e" and "e < 1024"
    and "x / 2 powi (e - 52) = of_int k"
  shows "rnd x = Fin x"
proof -
  have e: "expo x = e" using assms(1-3) by (rule expo_eq)
  have x: "of_int k * 2 powi (e - 52) = x"
    using assms(5) by (simp add: field_simps)
  have "(2::real) powi (e + 1) \<le> f64_huge"
    using assms(4) by (intro pow2_le_huge) simp
  then have "\<not> f64_huge \<le> \<bar>x\<bar>" using assms(2) by linarith
  then show ?thesis
    by (simp add: rnd_def ulp_def e Let_def assms(5) round_half_even_int x)
qed

lemma rnd_near:
  assumes "2 powi e \<le> \<bar>x\<bar>" and "\<bar>x\<bar> < 2 powi (e + 1)" and "- 1022 \<le> e" and "e < 1023"
    and "of_int k - 1 / 2 < x / 2 powi (e - 52)" and "x / 2 powi (e - 52) < of_int k + 1 / 2"
  shows "rnd x = Fin (of_int k * 2 powi (e - 52))"
proof -
  have e: "expo x = e" using assms(1-3) by (rule expo_eq)
  have k: "round_half_even (x / ulp x) = k"
    unfolding ulp_def e using assms(5,6) by (rule round_half_even_near)
  have u: "(0::real) < 2 powi (e - 52)" by simp
  have split: "(2::real) powi (e + 1) = 9007199254740992 * 2 powi (e - 52)"
    using power_int_add [of "2::real" 53 "e - 52"] by (simp add: add.commute)
  have "\<bar>x\<bar> / 2 powi (e - 52) < 9007199254740992"
    using assms(2) u unfolding split by (simp add: field_simps)
  then have "\<bar>x / 2 powi (e - 52)\<bar> < 9007199254740992"
    by simp
  then have "\<bar>real_of_int k\<bar> < 9007199254740992 + 1 / 2"
    using assms(5,6) by linarith
  then have "\<bar>k\<bar> \<le> 9007199254740992"
    by linarith
  then have "\<bar>real_of_int k\<bar> \<le> 9007199254740992"
    by linarith
  then have "\<bar>real_of_int k * 2 powi (e - 52)\<bar> \<le> 2 powi (e + 1)"
    unfolding split abs_mult using u by (simp add: mult_right_mono)
  moreover have "(2::real) powi (e + 1) < 2 powi 1024"
    using assms(4) by (intro power_int_strict_increasing) simp_all
  ultimately have "\<not> f64_huge \<le> \<bar>real_of_int k * 2 powi (e - 52)\<bar>"
    unfolding f64_huge_def by linarith
  then show ?thesis by (simp add: rnd_def Let_def k) (simp add: ulp_def e)
qed

lemma rnd_nonneg:
  assumes "0 \<le> x"
  shows "not_negative (rnd x)"
proof -
  have "0 \<le> x / ulp x" using assms ulp_pos [of x] by simp
  then have "0 \<le> round_half_even (x / ulp x)"
    using round_half_even_ge [of 0 "x / ulp x"] by simp
  then have y: "0 \<le> real_of_int (round_half_even (x / ulp x)) * ulp x"
    using ulp_pos [of x] by simp
  show ?thesis
  proof (cases "f64_huge \<le> \<bar>real_of_int (round_half_even (x / ulp x)) * ulp x\<bar>")
    case True
    have "round_half_even 0 = 0" using round_half_even_int [of 0] by simp
    with True f64_huge_pos have "x \<noteq> 0" by auto
    with assms have "0 < x" by simp
    with True show ?thesis by (simp add: rnd_def Let_def)
  next
    case False
    with y show ?thesis by (simp add: rnd_def Let_def)
  qed
qed


lemma fmul_self_not_negative: "not_negative (fmul a a)"
  by (cases a) (simp_all add: rnd_nonneg)

lemma fadd_not_negative: "not_negative a \<Longrightarrow> not_negative b \<Longrightarrow> not_negative (fadd a b)"
  by (cases a; cases b) (simp_all add: rnd_nonneg)

lemma math_sqrt_not_negative: "not_negative a \<Longrightarrow> math_sqrt a = Inr (np_sqrt a)"
  by (cases a) simp_all

lemma math_sqrt_sum_squares:
  "math_sqrt (fadd (fadd (fmul x x) (fmul y y)) (fmul z z)) = Inr (linalg_norm (x, y, z))"
  by (simp add: math_sqrt_not_negative fadd_not_negative fmul_self_not_negative)

lemma flt_NaN: "\<not> flt NaN t" "\<not> flt t NaN"
  by (cases t; simp)+

lemma rnd_sqrt_near:
  assumes "(2 powi e)\<^sup>2 \<le> y" and "y < (2 powi (e + 1))\<^sup>2" and "- 1022 \<le> e" and "e < 1023"
    and "0 < k"
    and "((of_int k - 1 / 2) * 2 powi (e - 52))\<^sup>2 < y"
    and "y < ((of_int k + 1 / 2) * 2 powi (e - 52))\<^sup>2"
  shows "rnd (sqrt y) = Fin (of_int k * 2 powi (e - 52))"
proof (rule rnd_near)
  have u: "(0::real) < 2 powi (e - 52)" by simp
  have y0: "0 \<le> y" using assms(1) by (smt (verit) zero_le_power2)
  have "2 powi e \<le> sqrt y"
    using assms(1) by (intro real_le_rsqrt) simp
  then show "2 powi e \<le> \<bar>sqrt y\<bar>" by simp
  have "sqrt y < 2 powi (e + 1)"
    using assms(2) by (intro real_less_lsqrt) simp_all
  then show "\<bar>sqrt y\<bar> < 2 powi (e + 1)" using y0 by simp
  show "- 1022 \<le> e" "e < 1023" by fact+
  have k: "0 \<le> (real_of_int k - 1 / 2) * 2 powi (e - 52)"
    using assms(5) by simp
  have "(real_of_int k - 1 / 2) * 2 powi (e - 52) < sqrt y"
    using assms(6) by (intro real_less_rsqrt)
  then show "real_of_int k - 1 / 2 < sqrt y / 2 powi (e - 52)"
    using u by (simp add: field_simps)
  have "sqrt y < (real_of_int k + 1 / 2) * 2 powi (e - 52)"
    using assms(7,5) by (intro real_less_lsqrt) simp_all
  then show "sqrt y / 2 powi (e - 52) < real_of_int k + 1 / 2"
    using u by (simp add: field_simps)
qed

subsection \<open>Values that the examples need\<close>

lemmas pw = power_int_def power_divide












lemma lit_0_5: "py_float (1 / 2) = Fin (1 / 2)"
  unfolding py_float_def
  by (rule rnd_exact [where e = "- 1" and k = 4503599627370496]) (simp_all add: pw)

lemma lit_0_1: "py_float (1 / 10) = Fin (3602879701896397 / 36028797018963968)"
  unfolding py_float_def
  using rnd_near [where x = "1 / 10" and e = "- 4" and k = 7205759403792794]
  by (simp add: pw)

lemma lit_0_2: "py_float (1 / 5) = Fin (3602879701896397 / 18014398509481984)"
  unfolding py_float_def
  using rnd_near [where x = "1 / 5" and e = "- 3" and k = 7205759403792794]
  by (simp add: pw)

lemma lit_0_05: "py_float (1 / 20) = Fin (3602879701896397 / 72057594037927936)"
  unfolding py_float_def
  using rnd_near [where x = "1 / 20" and e = "- 5" and k = 7205759403792794]
  by (simp add: pw)

lemma lit_0_4: "py_float (2 / 5) = Fin (3602879701896397 / 9007199254740992)"
  unfolding py_float_def
  using rnd_near [where x = "2 / 5" and e = "- 2" and k = 7205759403792794]
  by (simp add: pw)

lemma lit_0_3: "py_float (3 / 10) = Fin (5404319552844595 / 18014398509481984)"
  unfolding py_float_def
  using rnd_near [where x = "3 / 10" and e = "- 2" and k = 5404319552844595]
  by (simp add: pw)

lemma lit_0_01: "py_float (1 / 100) = Fin (5764607523034235 / 576460752303423488)"
  unfolding py_float_def
  using rnd_near [where x = "1 / 100" and e = "- 7" and k = 5764607523034235]
  by (simp add: pw)

lemma lit_0_48: "py_float (12 / 25) = Fin (1080863910568919 / 2251799813685248)"
  unfolding py_float_def
  using rnd_near [where x = "12 / 25" and e = "- 2" and k = 8646911284551352]
  by (simp add: pw)

lemma lit_0_14: "py_float (7 / 50) = Fin (1261007895663739 / 9007199254740992)"
  unfolding py_float_def
  using rnd_near [where x = "7 / 50" and e = "- 3" and k = 5044031582654956]
  by (simp add: pw)

lemma exact_0_4: "rnd (3602879701896397 / 9007199254740992) = Fin (3602879701896397 / 9007199254740992)"
  by (rule rnd_exact [where e = "- 2" and k = 7205759403792794]) (simp_all add: pw)

lemma exact_0_1: "rnd (3602879701896397 / 36028797018963968) = Fin (3602879701896397 / 36028797018963968)"
  by (rule rnd_exact [where e = "- 4" and k = 7205759403792794]) (simp_all add: pw)

lemma exact_0_3: "rnd (5404319552844595 / 18014398509481984) = Fin (5404319552844595 / 18014398509481984)"
  by (rule rnd_exact [where e = "- 2" and k = 5404319552844595]) (simp_all add: pw)

lemma exact_0_01: "rnd (5764607523034235 / 576460752303423488) = Fin (5764607523034235 / 576460752303423488)"
  by (rule rnd_exact [where e = "- 7" and k = 5764607523034235]) (simp_all add: pw)

lemma exact_0_05: "rnd (3602879701896397 / 72057594037927936) = Fin (3602879701896397 / 72057594037927936)"
  by (rule rnd_exact [where e = "- 5" and k = 7205759403792794]) (simp_all add: pw)

lemma exact_0_48: "rnd (1080863910568919 / 2251799813685248) = Fin (1080863910568919 / 2251799813685248)"
  by (rule rnd_exact [where e = "- 2" and k = 8646911284551352]) (simp_all add: pw)

lemma exact_0_14: "rnd (1261007895663739 / 9007199254740992) = Fin (1261007895663739 / 9007199254740992)"
  by (rule rnd_exact [where e = "- 3" and k = 5044031582654956]) (simp_all add: pw)

lemma exact_0_5: "rnd (1 / 2) = Fin (1 / 2)"
  by (rule rnd_exact [where e = "- 1" and k = 4503599627370496]) (simp_all add: pw)

lemma square_0_4: "fmul (Fin (3602879701896397 / 9007199254740992)) (Fin (3602879701896397 / 9007199254740992)) = Fin (1441151880758559 / 9007199254740992)"
  unfolding fmul.simps
  using rnd_near [where x = "3602879701896397 / 9007199254740992 * (3602879701896397 / 9007199254740992)" and e = "- 3" and k = 5764607523034236]
  by (simp add: pw)

lemma exact_square_0_4: "rnd (1441151880758559 / 9007199254740992) = Fin (1441151880758559 / 9007199254740992)"
  by (rule rnd_exact [where e = "- 3" and k = 5764607523034236]) (simp_all add: pw)

lemma sqrt_square_0_4: "np_sqrt (Fin (1441151880758559 / 9007199254740992)) = Fin (3602879701896397 / 9007199254740992)"
  unfolding np_sqrt.simps
  using rnd_sqrt_near [where y = "1441151880758559 / 9007199254740992" and e = "- 2" and k = 7205759403792794]
  by (simp add: pw power2_eq_square)

lemma square_0_1: "fmul (Fin (3602879701896397 / 36028797018963968)) (Fin (3602879701896397 / 36028797018963968)) = Fin (1441151880758559 / 144115188075855872)"
  unfolding fmul.simps
  using rnd_near [where x = "3602879701896397 / 36028797018963968 * (3602879701896397 / 36028797018963968)" and e = "- 7" and k = 5764607523034236]
  by (simp add: pw)

lemma exact_square_0_1: "rnd (1441151880758559 / 144115188075855872) = Fin (1441151880758559 / 144115188075855872)"
  by (rule rnd_exact [where e = "- 7" and k = 5764607523034236]) (simp_all add: pw)

lemma sqrt_square_0_1: "np_sqrt (Fin (1441151880758559 / 144115188075855872)) = Fin (3602879701896397 / 36028797018963968)"
  unfolding np_sqrt.simps
  using rnd_sqrt_near [where y = "1441151880758559 / 144115188075855872" and e = "- 4" and k = 7205759403792794]
  by (simp add: pw power2_eq_square)

lemma square_0_3: "fmul (Fin (5404319552844595 / 18014398509481984)) (Fin (5404319552844595 / 18014398509481984)) = Fin (3242591731706757 / 36028797018963968)"
  unfolding fmul.simps
  using rnd_near [where x = "5404319552844595 / 18014398509481984 * (5404319552844595 / 18014398509481984)" and e = "- 4" and k = 6485183463413514]
  by (simp add: pw)

lemma exact_square_0_3: "rnd (3242591731706757 / 36028797018963968) = Fin (3242591731706757 / 36028797018963968)"
  by (rule rnd_exact [where e = "- 4" and k = 6485183463413514]) (simp_all add: pw)

lemma sqrt_square_0_3: "np_sqrt (Fin (3242591731706757 / 36028797018963968)) = Fin (5404319552844595 / 18014398509481984)"
  unfolding np_sqrt.simps
  using rnd_sqrt_near [where y = "3242591731706757 / 36028797018963968" and e = "- 2" and k = 5404319552844595]
  by (simp add: pw power2_eq_square)

lemma square_0_01: "fmul (Fin (5764607523034235 / 576460752303423488)) (Fin (5764607523034235 / 576460752303423488)) = Fin (7378697629483821 / 73786976294838206464)"
  unfolding fmul.simps
  using rnd_near [where x = "5764607523034235 / 576460752303423488 * (5764607523034235 / 576460752303423488)" and e = "- 14" and k = 7378697629483821]
  by (simp add: pw)

lemma exact_square_0_01: "rnd (7378697629483821 / 73786976294838206464) = Fin (7378697629483821 / 73786976294838206464)"
  by (rule rnd_exact [where e = "- 14" and k = 7378697629483821]) (simp_all add: pw)

lemma sqrt_square_0_01: "np_sqrt (Fin (7378697629483821 / 73786976294838206464)) = Fin (5764607523034235 / 576460752303423488)"
  unfolding np_sqrt.simps
  using rnd_sqrt_near [where y = "7378697629483821 / 73786976294838206464" and e = "- 7" and k = 5764607523034235]
  by (simp add: pw power2_eq_square)

lemma square_0_48: "fmul (Fin (1080863910568919 / 2251799813685248)) (Fin (1080863910568919 / 2251799813685248)) = Fin (4150517416584649 / 18014398509481984)"
  unfolding fmul.simps
  using rnd_near [where x = "1080863910568919 / 2251799813685248 * (1080863910568919 / 2251799813685248)" and e = "- 3" and k = 8301034833169298]
  by (simp add: pw)

lemma square_0_14: "fmul (Fin (1261007895663739 / 9007199254740992)) (Fin (1261007895663739 / 9007199254740992)) = Fin (5649315372573551 / 288230376151711744)"
  unfolding fmul.simps
  using rnd_near [where x = "1261007895663739 / 9007199254740992 * (1261007895663739 / 9007199254740992)" and e = "- 6" and k = 5649315372573551]
  by (simp add: pw)

lemma sum_squares_0_48_0_14: "fadd (Fin (4150517416584649 / 18014398509481984)) (Fin (5649315372573551 / 288230376151711744)) = Fin (1 / 4)"
  unfolding fadd.simps
  using rnd_near [where x = "4150517416584649 / 18014398509481984 + 5649315372573551 / 288230376151711744" and e = "- 3" and k = 9007199254740992]
  by (simp add: pw)

lemma exact_0_25: "rnd (1 / 4) = Fin (1 / 4)"
  by (rule rnd_exact [where e = "- 2" and k = 4503599627370496]) (simp_all add: pw)


lemma sqrt_quarter: "sqrt (1 / 4) = 1 / 2"
  using real_sqrt_abs2 [of "1 / 2"] by simp





lemma fadd_zero_right: "rnd x = Fin x \<Longrightarrow> fadd (Fin x) (Fin 0) = Fin x"
  by simp

lemma fadd_zero_left: "rnd x = Fin x \<Longrightarrow> fadd (Fin 0) (Fin x) = Fin x"
  by simp

lemma fmul_zero: "fmul (Fin 0) (Fin 0) = Fin 0"
  by (simp add: rnd_zero)

lemma np_sqrt_quarter: "np_sqrt (Fin (1 / 4)) = Fin (1 / 2)"
  by (simp add: sqrt_quarter exact_0_5)

lemmas eval =
  fsub_def rnd_zero fadd_zero_right fadd_zero_left fmul_zero
  lit_0_5 lit_0_1 lit_0_2 lit_0_05 lit_0_4 lit_0_3 lit_0_01 lit_0_48 lit_0_14
  exact_0_4 exact_0_1 exact_0_3 exact_0_01 exact_0_05 exact_0_48 exact_0_14 exact_0_5
  square_0_4 square_0_1 square_0_3 square_0_01 square_0_48 square_0_14
  exact_square_0_4 exact_square_0_1 exact_square_0_3 exact_square_0_01
  sqrt_square_0_4 sqrt_square_0_1 sqrt_square_0_3 sqrt_square_0_01
  sum_squares_0_48_0_14 exact_0_25 np_sqrt_quarter

section \<open>The setpoint limiter\<close>

subsection \<open>The spec's limiter in exact arithmetic\<close>




lemma vec_norm_nonneg: "0 \<le> vec_norm v"
  by (cases v) simp






section \<open>The arrival detector\<close>

text \<open>
  The argument of every \<^verbatim>\<open>math.sqrt\<close> is a sum of three squares, which is never
  negative: no getter raises, and each returns the binary64 Euclidean norm.
\<close>

lemma getters_never_raise:
  "get_pos_error self =
     Inr (linalg_norm (fsub (pt_x (position (pose (target_pose self)))) (pt_x (position (pose (current_pose self)))),
                       fsub (pt_y (position (pose (target_pose self)))) (pt_y (position (pose (current_pose self)))),
                       fsub (pt_z (position (pose (target_pose self)))) (pt_z (position (pose (current_pose self))))))"
  "get_velocity_abs self =
     Inr (linalg_norm (vec_x (twist_linear (twist (current_velocity self))),
                       vec_y (twist_linear (twist (current_velocity self))),
                       vec_z (twist_linear (twist (current_velocity self)))))"
  "get_ang_vel_abs self =
     Inr (linalg_norm (vec_x (twist_angular (twist (current_velocity self))),
                       vec_y (twist_angular (twist (current_velocity self))),
                       vec_z (twist_angular (twist (current_velocity self)))))"
  unfolding get_pos_error_def get_velocity_abs_def get_ang_vel_abs_def Let_def
  by (rule math_sqrt_sum_squares)+

text \<open>
  Claim C2. \<open>has_arrived\<close> returns, without raising, the conjunction of four
  comparisons of the numbers the code computes in binary64: the Euclidean distance
  between target and current position below 0.5, the absolute difference of the two yaw
  angles below 0.1, the Euclidean norm of the linear velocity below 0.2, and the
  Euclidean norm of the angular velocity below 0.05. This holds for every yaw
  extraction \<open>o2y\<close>.
\<close>

theorem has_arrived_iff:
  "has_arrived o2y self =
     Inr (flt (linalg_norm
                 (fsub (pt_x (position (pose (target_pose self)))) (pt_x (position (pose (current_pose self)))),
                  fsub (pt_y (position (pose (target_pose self)))) (pt_y (position (pose (current_pose self)))),
                  fsub (pt_z (position (pose (target_pose self)))) (pt_z (position (pose (current_pose self))))))
              (py_float 0.5)
        \<and> flt (fabs (fsub (o2y (orientation (pose (target_pose self))))
                           (o2y (orientation (pose (current_pose self))))))
              (py_float 0.1)
        \<and> flt (linalg_norm (vec_x (twist_linear (twist (current_velocity self))),
                             vec_y (twist_linear (twist (current_velocity self))),
                             vec_z (twist_linear (twist (current_velocity self)))))
              (py_float 0.2)
        \<and> flt (linalg_norm (vec_x (twist_angular (twist (current_velocity self))),
                             vec_y (twist_angular (twist (current_velocity self))),
                             vec_z (twist_angular (twist (current_velocity self)))))
              (py_float 0.05))"
  unfolding has_arrived_def getters_never_raise get_yaw_error_def Let_def
  by simp

text \<open>
  The spec's example: 0.4 m away, 0.05 rad off and turning at 0.01 rad/s, the vehicle
  has arrived at a speed of 0.1 m/s and has not at 0.3 m/s. At the target
  \<open>(0.48, 0.14, 0)\<close> the computed distance rounds to 0.5, so the vehicle has not
  arrived, although the distance between the two binary64 points is below one half.
\<close>

theorem has_arrived_iff_witness:
  "has_arrived quat_z (spec_example (py_float 0.1)) = Inr True
   \<and> has_arrived quat_z (spec_example (py_float 0.3)) = Inr False
   \<and> has_arrived quat_z (heading_for (py_float 0.48) (py_float 0.14) (Fin 0)) = Inr False
   \<and> vec_norm (1080863910568919 / 2251799813685248, 1261007895663739 / 9007199254740992, 0) < 1 / 2"
proof -
  have "(1080863910568919 / 2251799813685248) * (1080863910568919 / 2251799813685248)
      + (1261007895663739 / 9007199254740992) * (1261007895663739 / 9007199254740992) + 0 * 0
      < (1 / 2 :: real)\<^sup>2"
    by (simp add: power2_eq_square)
  then have exact_distance:
    "vec_norm (1080863910568919 / 2251799813685248, 1261007895663739 / 9007199254740992, 0) < 1 / 2"
    unfolding vec_norm.simps by (intro real_less_lsqrt) simp_all
  have "has_arrived quat_z (spec_example (py_float 0.1)) = Inr True
      \<and> has_arrived quat_z (spec_example (py_float 0.3)) = Inr False
      \<and> has_arrived quat_z (heading_for (py_float 0.48) (py_float 0.14) (Fin 0)) = Inr False"
    using has_arrived_iff [of quat_z "spec_example (py_float 0.1)"]
      has_arrived_iff [of quat_z "spec_example (py_float 0.3)"]
      has_arrived_iff [of quat_z "heading_for (py_float 0.48) (py_float 0.14) (Fin 0)"]
    by (simp add: example_defs eval del: fadd.simps fmul.simps np_sqrt.simps)
  with exact_distance show ?thesis by simp
qed

text \<open>
  Claim C8. A comparison with not-a-number on its left is false; so when the position
  error, the yaw error, the linear speed or the angular speed is not-a-number,
  \<open>has_arrived\<close> returns false.
\<close>

theorem has_arrived_nan:
  "(\<forall>t. \<not> flt NaN t)
   \<and> (get_pos_error self = Inr NaN \<or> get_yaw_error o2y self = NaN
        \<or> get_velocity_abs self = Inr NaN \<or> get_ang_vel_abs self = Inr NaN
      \<longrightarrow> has_arrived o2y self = Inr False)"
proof (intro conjI allI impI)
  fix t show "\<not> flt NaN t" by simp
next
  assume "get_pos_error self = Inr NaN \<or> get_yaw_error o2y self = NaN
        \<or> get_velocity_abs self = Inr NaN \<or> get_ang_vel_abs self = Inr NaN"
  then show "has_arrived o2y self = Inr False"
    unfolding has_arrived_def Let_def
    using getters_never_raise [of self]
    by (auto split: sum.splits)
qed

theorem has_arrived_nan_witness:
  "get_pos_error lost_fix = Inr NaN \<and> has_arrived quat_z lost_fix = Inr False"
proof -
  have n: "get_pos_error lost_fix = Inr NaN"
    by (simp add: get_pos_error_def example_defs fsub_def)
  with has_arrived_nan [of lost_fix quat_z] show ?thesis by simp
qed

section \<open>The flight state machine\<close>

subsection \<open>One update\<close>

lemma call_then_stamp_simps:
  "calls (call_then_stamp self r a t) = [\<lparr>stamp = t, req = r, ended = a\<rparr>]"
  "raised (call_then_stamp self r a t) = (a = Raises)"
  "after (call_then_stamp self r a t) = (if a = Raises then self else self\<lparr>last_request := t\<rparr>)"
  by (cases a; simp add: call_then_stamp_def)+

lemma quiet_simps:
  "calls (quiet self) = []" "raised (quiet self) = False" "after (quiet self) = self"
  by (simp_all add: quiet_def)

lemma autoland_shape:
  "calls (autoland self io) =
     (if now_guard io - last_request self > Duration_1_0 \<and> mode (UAV_state self) \<noteq> ''AUTO.LAND''
      then [mode_call ''AUTO.LAND'' io] else [])"
  "last_request (after (autoland self io)) =
     (if now_guard io - last_request self > Duration_1_0 \<and> mode (UAV_state self) \<noteq> ''AUTO.LAND''
         \<and> mode_answer io \<noteq> Raises
      then now_mode io else last_request self)"
  "raised (autoland self io) =
     (now_guard io - last_request self > Duration_1_0 \<and> mode (UAV_state self) \<noteq> ''AUTO.LAND''
      \<and> mode_answer io = Raises)"
  by (simp_all add: autoland_def call_then_stamp_simps quiet_simps mode_call_def)

lemma arm_and_offboard_shape:
  "calls (arm_and_offboard self io) =
     (if now_guard io - last_request self > Duration_1_0 then
        (if mode (UAV_state self) \<noteq> ''OFFBOARD'' then [mode_call ''OFFBOARD'' io] else [])
        @ (if (mode (UAV_state self) \<noteq> ''OFFBOARD'' \<and> mode_answer io = Raises)
              \<or> armed (UAV_state self) then [] else [arm_call io])
      else [])"
  "last_request (after (arm_and_offboard self io)) =
     (if now_guard io - last_request self > Duration_1_0 then
        if mode (UAV_state self) \<noteq> ''OFFBOARD'' \<and> mode_answer io = Raises then last_request self
        else if \<not> armed (UAV_state self) \<and> arm_answer io \<noteq> Raises then now_arm io
        else if mode (UAV_state self) \<noteq> ''OFFBOARD'' then now_mode io
        else last_request self
      else last_request self)"
  "raised (arm_and_offboard self io) =
     (now_guard io - last_request self > Duration_1_0
      \<and> (if mode (UAV_state self) \<noteq> ''OFFBOARD'' \<and> mode_answer io = Raises then True
         else \<not> armed (UAV_state self) \<and> arm_answer io = Raises))"
  by (simp_all add: arm_and_offboard_def call_then_stamp_simps quiet_simps mode_call_def
      arm_call_def Let_def)


lemma state_callback_shape:
  "calls (state_callback self topic io) =
     (if now_guard io - last_request self > Duration_1_0 then
        if fly self then
          (if mode topic \<noteq> ''OFFBOARD'' then [mode_call ''OFFBOARD'' io] else [])
          @ (if (mode topic \<noteq> ''OFFBOARD'' \<and> mode_answer io = Raises) \<or> armed topic then []
             else [arm_call io])
        else if mode topic \<noteq> ''AUTO.LAND'' then [mode_call ''AUTO.LAND'' io] else []
      else [])"
  "last_request (after (state_callback self topic io)) =
     (if now_guard io - last_request self > Duration_1_0 then
        if fly self then
          if mode topic \<noteq> ''OFFBOARD'' \<and> mode_answer io = Raises then last_request self
          else if \<not> armed topic \<and> arm_answer io \<noteq> Raises then now_arm io
          else if mode topic \<noteq> ''OFFBOARD'' then now_mode io
          else last_request self
        else if mode topic \<noteq> ''AUTO.LAND'' \<and> mode_answer io \<noteq> Raises then now_mode io
        else last_request self
      else last_request self)"
  "raised (state_callback self topic io) =
     (now_guard io - last_request self > Duration_1_0
      \<and> (if fly self then
            (if mode topic \<noteq> ''OFFBOARD'' \<and> mode_answer io = Raises then True
             else \<not> armed topic \<and> arm_answer io = Raises)
          else mode topic \<noteq> ''AUTO.LAND'' \<and> mode_answer io = Raises))"
  by (simp_all add: state_callback_def set_states_def autoland_shape arm_and_offboard_shape)

lemma step_last_request_mono:
  assumes "event_ok e" and "step self e = (self', out)"
  shows "last_request self \<le> last_request self'"
proof (cases e)
  case (State_update topic io)
  with assms have "clock_ok io" "self' = after (state_callback self topic io)" by auto
  then show ?thesis
    by (simp add: state_callback_shape clock_ok_def Duration_1_0_def)
next
  case Land
  with assms show ?thesis by (auto simp: land_def)
next
  case Takeoff
  with assms show ?thesis by (auto simp: takeoff_def)
qed

lemma step_stamps:
  assumes "event_ok e" and "step self e = (self', out)" and "c \<in> set out"
  shows "last_request self + Duration_1_0 < stamp c \<and> (returned c \<longrightarrow> stamp c \<le> last_request self')"
proof (cases e)
  case (State_update topic io)
  with assms have io: "clock_ok io" and s: "self' = after (state_callback self topic io)"
    and o: "c \<in> set (calls (state_callback self topic io))" by auto
  from o consider "c = mode_call ''OFFBOARD'' io" | "c = arm_call io" | "c = mode_call ''AUTO.LAND'' io"
    by (auto simp: state_callback_shape split: if_splits)
  then show ?thesis
  proof cases
    case 1
    with o io show ?thesis unfolding s
      by (auto simp: state_callback_shape mode_call_def arm_call_def returned_def clock_ok_def
          split: if_splits)
  next
    case 2
    with o io show ?thesis unfolding s
      by (auto simp: state_callback_shape mode_call_def arm_call_def returned_def clock_ok_def
          split: if_splits)
  next
    case 3
    with o io show ?thesis unfolding s
      by (auto simp: state_callback_shape mode_call_def arm_call_def returned_def clock_ok_def
          split: if_splits)
  qed
next
  case Land
  with assms show ?thesis by auto
next
  case Takeoff
  with assms show ?thesis by auto
qed

lemma step_one_of_a_kind:
  assumes "step self e = (self', out)" and "kind = is_mode_request \<or> kind = is_arm_request"
  shows "length (filter (\<lambda>c. kind (req c)) out) \<le> 1"
proof (cases e)
  case (State_update topic io)
  with assms(1) have o: "out = calls (state_callback self topic io)" by auto
  from assms(2) show ?thesis
    unfolding o by (auto simp: state_callback_shape mode_call_def arm_call_def)
next
  case Land
  with assms show ?thesis by auto
next
  case Takeoff
  with assms show ?thesis by auto
qed

lemma step_no_raise:
  assumes "no_raise e" and "step self e = (self', out)" and "c \<in> set out"
  shows "returned c"
proof (cases e)
  case (State_update topic io)
  with assms have "mode_answer io \<noteq> Raises" "arm_answer io \<noteq> Raises"
    and "c \<in> set (calls (state_callback self topic io))" by auto
  then show ?thesis
    by (auto simp: state_callback_shape mode_call_def arm_call_def returned_def split: if_splits)
next
  case Land
  with assms show ?thesis by auto
next
  case Takeoff
  with assms show ?thesis by auto
qed

subsection \<open>A history of updates\<close>

lemma state_callback_fly: "fly (after (state_callback self topic io)) = fly self"
  by (simp add: state_callback_def set_states_def autoland_def arm_and_offboard_def
      call_then_stamp_simps quiet_simps Let_def)

lemma land_takeoff_simps:
  "fly (land self) = False" "last_request (land self) = last_request self"
  "fly (takeoff self) = True" "last_request (takeoff self) = last_request self"
  by (simp_all add: land_def takeoff_def)

lemma run_last_request_mono:
  "list_all event_ok es \<Longrightarrow> run self es = (self', out) \<Longrightarrow> last_request self \<le> last_request self'"
proof (induction es arbitrary: self self' out)
  case Nil
  then show ?case by simp
next
  case (Cons e es)
  obtain s1 o1 where s1: "step self e = (s1, o1)" by (cases "step self e")
  obtain s2 o2 where s2: "run s1 es = (s2, o2)" by (cases "run s1 es")
  from Cons.prems s1 s2 have eq: "self' = s2" by simp
  from Cons.prems s1 have "last_request self \<le> last_request s1"
    by (auto intro: step_last_request_mono)
  moreover from Cons.prems s2 have "last_request s1 \<le> last_request s2"
    by (auto intro: Cons.IH)
  ultimately show ?case using eq by simp
qed

lemma run_stamps_later:
  "list_all event_ok es \<Longrightarrow> run self es = (self', out) \<Longrightarrow> c \<in> set out \<Longrightarrow>
     last_request self + Duration_1_0 < stamp c"
proof (induction es arbitrary: self self' out)
  case Nil
  then show ?case by simp
next
  case (Cons e es)
  obtain s1 o1 where s1: "step self e = (s1, o1)" by (cases "step self e")
  obtain s2 o2 where s2: "run s1 es = (s2, o2)" by (cases "run s1 es")
  from Cons.prems s1 s2 have out: "out = o1 @ o2" by simp
  from Cons.prems have ok: "event_ok e" "list_all event_ok es" by simp_all
  from Cons.prems(3) out consider "c \<in> set o1" | "c \<in> set o2" by auto
  then show ?case
  proof cases
    case 1
    with ok(1) s1 show ?thesis using step_stamps by blast
  next
    case 2
    with ok(2) s2 have "last_request s1 + Duration_1_0 < stamp c" by (rule Cons.IH)
    moreover from ok(1) s1 have "last_request self \<le> last_request s1"
      by (rule step_last_request_mono)
    ultimately show ?thesis by simp
  qed
qed

lemma run_no_raise:
  "list_all no_raise es \<Longrightarrow> run self es = (self', out) \<Longrightarrow> c \<in> set out \<Longrightarrow> returned c"
proof (induction es arbitrary: self self' out)
  case Nil
  then show ?case by simp
next
  case (Cons e es)
  obtain s1 o1 where s1: "step self e = (s1, o1)" by (cases "step self e")
  obtain s2 o2 where s2: "run s1 es = (s2, o2)" by (cases "run s1 es")
  from Cons.prems s1 s2 have out: "out = o1 @ o2" by simp
  from Cons.prems have ok: "no_raise e" "list_all no_raise es" by simp_all
  from Cons.prems(3) out consider "c \<in> set o1" | "c \<in> set o2" by auto
  then show ?case
  proof cases
    case 1
    with ok(1) s1 show ?thesis by (rule step_no_raise)
  next
    case 2
    with ok(2) s2 show ?thesis by (rule Cons.IH)
  qed
qed

lemma in_window_append: "in_window kind a (xs @ ys) = in_window kind a xs @ in_window kind a ys"
  by (simp add: in_window_def)

lemma in_window_length_le: "length (in_window kind a xs) \<le> length (filter (\<lambda>c. kind (req c)) xs)"
proof -
  have "in_window kind a xs
      = filter (\<lambda>c. a \<le> stamp c \<and> stamp c \<le> a + Duration_1_0) (filter (\<lambda>c. kind (req c)) xs)"
    by (auto simp: in_window_def intro: filter_cong)
  then show ?thesis by (metis length_filter_le)
qed

lemma in_window_empty:
  assumes "\<And>c. c \<in> set xs \<Longrightarrow> a + Duration_1_0 < stamp c"
  shows "in_window kind a xs = []"
proof -
  have "\<not> (kind (req c) \<and> a \<le> stamp c \<and> stamp c \<le> a + Duration_1_0)" if "c \<in> set xs" for c
    using assms [OF that] by simp
  then show ?thesis by (auto simp: in_window_def filter_empty_conv)
qed

lemma in_window_member: "c \<in> set (in_window kind a xs) \<Longrightarrow> c \<in> set xs \<and> a \<le> stamp c"
  by (auto simp: in_window_def)

lemma returned_in_window_append:
  "returned_in_window kind a (xs @ ys) = returned_in_window kind a xs @ returned_in_window kind a ys"
  by (simp add: returned_in_window_def in_window_append)

lemma returned_in_window_all:
  assumes "\<And>c. c \<in> set xs \<Longrightarrow> returned c"
  shows "returned_in_window kind a xs = in_window kind a xs"
proof -
  have "returned c" if "c \<in> set (in_window kind a xs)" for c
    using that in_window_member assms by blast
  then show ?thesis unfolding returned_in_window_def by (simp add: filter_id_conv)
qed

lemma returned_throttled:
  assumes "list_all event_ok es" and kind: "kind = is_mode_request \<or> kind = is_arm_request"
  shows "length (returned_in_window kind a (snd (run self es))) \<le> 1"
  using assms(1)
proof (induction es arbitrary: self)
  case Nil
  then show ?case by (simp add: returned_in_window_def in_window_def)
next
  case (Cons e es)
  obtain s1 o1 where s1: "step self e = (s1, o1)" by (cases "step self e")
  obtain s2 o2 where s2: "run s1 es = (s2, o2)" by (cases "run s1 es")
  from s1 s2 have out: "snd (run self (e # es)) = o1 @ o2" by simp
  from Cons.prems have ok: "event_ok e" "list_all event_ok es" by simp_all
  have "length (returned_in_window kind a o1) \<le> length (in_window kind a o1)"
    by (simp add: returned_in_window_def)
  then have o1: "length (returned_in_window kind a o1) \<le> 1"
    using step_one_of_a_kind [OF s1 kind] in_window_length_le [of kind a o1] by linarith
  have o2: "length (returned_in_window kind a o2) \<le> 1"
    using Cons.IH [OF ok(2), of s1] s2 by simp
  show ?case
  proof (cases "returned_in_window kind a o1 = []")
    case True
    with o2 show ?thesis unfolding out returned_in_window_append by simp
  next
    case False
    then obtain c where "c \<in> set (returned_in_window kind a o1)"
      by (cases "returned_in_window kind a o1") auto
    then have r: "returned c" and w: "c \<in> set (in_window kind a o1)"
      by (simp_all add: returned_in_window_def)
    from w have mem: "c \<in> set o1" and lo: "a \<le> stamp c"
      using in_window_member by blast+
    from step_stamps [OF ok(1) s1 mem] r have t: "stamp c \<le> last_request s1" by simp
    have "in_window kind a o2 = []"
    proof (rule in_window_empty)
      fix c' assume "c' \<in> set o2"
      with ok(2) s2 have "last_request s1 + Duration_1_0 < stamp c'" by (rule run_stamps_later)
      with t lo show "a + Duration_1_0 < stamp c'" by simp
    qed
    then have "returned_in_window kind a o2 = []" by (simp add: returned_in_window_def)
    with o1 show ?thesis unfolding out returned_in_window_append by simp
  qed
qed

lemmas run_eval = example_defs state_callback_shape state_callback_fly land_takeoff_simps
  mode_call_def arm_call_def Duration_1_0_def

text \<open>
  Claim C3, as the code has it. The claim allows one mode-change request in any window
  of one second. When the call of \<^verbatim>\<open>set_mode\<close> raises, the assignment to
  \<^verbatim>\<open>last_request\<close> is not reached: an update 0.1 s later passes the guard again and
  repeats the request, so the window that starts with the first request holds two.
\<close>

theorem request_storm_counterexample:
  "list_all event_ok two_updates_first_raises
   \<and> map req (snd (run hover two_updates_first_raises))
       = [SetMode 0 ''OFFBOARD'', SetMode 0 ''OFFBOARD'', SetArming True]
   \<and> map stamp (snd (run hover two_updates_first_raises)) = [2000000001, 2100000001, 2100000002]
   \<and> length (in_window is_mode_request 2000000001 (snd (run hover two_updates_first_raises))) = 2"
  by (simp add: run_eval clock_ok_def in_window_def)


text \<open>
  Claim C3, amended. Over any sequence of vehicle-state updates (with landing and
  take-off commands anywhere between them), any window of one second, measured on the
  clock readings taken right after the calls, holds at most one mode-change request
  whose call returned and at most one arm request whose call returned, however many
  updates fall into it; so when no service call raises, it holds at most one mode-change
  request and at most one arm request. The clock is taken not to run backwards while one
  update is handled.
\<close>

theorem requests_throttled:
  assumes "list_all event_ok es"
  shows "length (returned_in_window is_mode_request a (snd (run self es))) \<le> 1
       \<and> length (returned_in_window is_arm_request a (snd (run self es))) \<le> 1
       \<and> (list_all no_raise es \<longrightarrow>
            length (in_window is_mode_request a (snd (run self es))) \<le> 1
          \<and> length (in_window is_arm_request a (snd (run self es))) \<le> 1)"
proof -
  have all: "in_window kind a (snd (run self es)) = returned_in_window kind a (snd (run self es))"
    if n: "list_all no_raise es" for kind
  proof -
    have "returned c" if "c \<in> set (snd (run self es))" for c
      using n prod.collapse [symmetric] that by (rule run_no_raise)
    then show ?thesis by (simp add: returned_in_window_all)
  qed
  show ?thesis
    using returned_throttled [OF assms, of is_mode_request a self]
      returned_throttled [OF assms, of is_arm_request a self]
    by (simp add: all)
qed

text \<open>
  Three updates at 2 s, 2.5 s and 3.5 s with a landing command before the third: the
  first sends both requests, the second nothing, the third the landing mode.
\<close>

theorem requests_throttled_witness:
  "list_all event_ok three_updates \<and> list_all no_raise three_updates
   \<and> map req (snd (run hover three_updates))
       = [SetMode 0 ''OFFBOARD'', SetArming True, SetMode 0 ''AUTO.LAND'']
   \<and> map stamp (snd (run hover three_updates)) = [2000000001, 2000000002, 3500000001]
   \<and> length (in_window is_mode_request 2000000001 (snd (run hover three_updates))) \<le> 1
   \<and> length (in_window is_arm_request 2000000001 (snd (run hover three_updates))) \<le> 1
   \<and> length (returned_in_window is_mode_request 2000000001
               (snd (run hover two_updates_first_raises))) \<le> 1"
proof -
  have h: "list_all event_ok three_updates" "list_all no_raise three_updates"
    "list_all event_ok two_updates_first_raises"
    by (simp_all add: example_defs clock_ok_def)
  have r: "map req (snd (run hover three_updates))
       = [SetMode 0 ''OFFBOARD'', SetArming True, SetMode 0 ''AUTO.LAND'']"
    "map stamp (snd (run hover three_updates)) = [2000000001, 2000000002, 3500000001]"
    by (simp_all add: run_eval)
  from requests_throttled [OF h(1), of 2000000001 hover]
    requests_throttled [OF h(3), of 2000000001 hover] h r
  show ?thesis by simp
qed

text \<open>
  Claim C4. While \<open>fly\<close> is false, a vehicle-state update sends no arm request and no
  request for the mode OFFBOARD; whatever it sends is the request for the mode
  AUTO.LAND, and it sends that only when the reported mode is another one.
\<close>

theorem landing_only_autoland:
  assumes "\<not> fly self"
  shows "(\<forall>v. SetArming v \<notin> req ` set (calls (state_callback self topic io)))
       \<and> (\<forall>b. SetMode b ''OFFBOARD'' \<notin> req ` set (calls (state_callback self topic io)))
       \<and> req ` set (calls (state_callback self topic io)) \<subseteq> {SetMode 0 ''AUTO.LAND''}
       \<and> (calls (state_callback self topic io) \<noteq> [] \<longrightarrow> mode topic \<noteq> ''AUTO.LAND'')"
  using assms by (auto simp: state_callback_shape mode_call_def split: if_splits)

theorem landing_only_autoland_witness:
  "\<not> fly (land hover)
   \<and> calls (state_callback (land hover) (State0\<lparr>mode := ''OFFBOARD''\<rparr>) (io_at 2000000000 (Returns True)))
       = [\<lparr>stamp = 2000000001, req = SetMode 0 ''AUTO.LAND'', ended = Returns True\<rparr>]
   \<and> mode (State0\<lparr>mode := ''OFFBOARD''\<rparr>) \<noteq> ''AUTO.LAND''"
proof -
  have h: "\<not> fly (land hover)" by (simp add: land_def)
  have r: "calls (state_callback (land hover) (State0\<lparr>mode := ''OFFBOARD''\<rparr>) (io_at 2000000000 (Returns True)))
       = [\<lparr>stamp = 2000000001, req = SetMode 0 ''AUTO.LAND'', ended = Returns True\<rparr>]"
    by (simp add: run_eval)
  from landing_only_autoland [OF h, of "State0\<lparr>mode := ''OFFBOARD''\<rparr>" "io_at 2000000000 (Returns True)"] h r
  show ?thesis by simp
qed

text \<open>
  Claim C5, as the code has it. The claim says that a failed request does not reset the
  throttle timer. The code drops the response of \<^verbatim>\<open>set_mode\<close>, and the assignment
  after \<^verbatim>\<open>set_arming\<close> stands outside the test of its response. Here both calls
  return a refusal and \<open>last_request\<close> still moves from 0 to the reading after the arm
  request.
\<close>

theorem refused_request_resets_timer_counterexample:
  "last_request hover = 0
   \<and> calls (state_callback hover State0 (io_at 2000000000 (Returns False)))
       = [\<lparr>stamp = 2000000001, req = SetMode 0 ''OFFBOARD'', ended = Returns False\<rparr>,
          \<lparr>stamp = 2000000002, req = SetArming True, ended = Returns False\<rparr>]
   \<and> last_request (after (state_callback hover State0 (io_at 2000000000 (Returns False)))) = 2000000002"
  by (simp add: run_eval)

text \<open>
  Claim C5, amended. After a vehicle-state update, \<open>last_request\<close> is the clock reading
  taken after the last call of the update that returned, whether its response accepts
  or refuses the request, and it is unchanged when no call returned. The update ends by
  an exception exactly when one of its calls raised, and that call does not reset the
  timer.
\<close>

theorem last_request_set_by_returned_calls:
  "last_request (after (state_callback self topic io)) =
     (case filter (\<lambda>c. ended c = Returns True \<or> ended c = Returns False)
             (calls (state_callback self topic io)) of
        [] \<Rightarrow> last_request self
      | c # cs \<Rightarrow> stamp (last (c # cs)))
   \<and> raised (state_callback self topic io)
       = (\<exists>c \<in> set (calls (state_callback self topic io)). ended c = Raises)"
proof (intro conjI)
  have "(ended c = Returns True \<or> ended c = Returns False) = returned c" for c
    by (cases "ended c") (auto simp: returned_def)
  then show "last_request (after (state_callback self topic io)) =
     (case filter (\<lambda>c. ended c = Returns True \<or> ended c = Returns False)
             (calls (state_callback self topic io)) of
        [] \<Rightarrow> last_request self
      | c # cs \<Rightarrow> stamp (last (c # cs)))"
    by (cases "mode_answer io"; cases "arm_answer io";
        simp add: state_callback_shape mode_call_def arm_call_def returned_def)
  show "raised (state_callback self topic io)
       = (\<exists>c \<in> set (calls (state_callback self topic io)). ended c = Raises)"
    unfolding list_ex_iff [symmetric]
    by (cases "mode_answer io"; cases "arm_answer io";
        simp add: state_callback_shape mode_call_def arm_call_def)
qed

theorem last_request_set_by_returned_calls_witness:
  "last_request (after (state_callback hover State0 (io_at 2000000000 (Returns False)))) = 2000000002
   \<and> last_request (after (state_callback hover State0 (io_at 2000000000 Raises))) = 0
   \<and> raised (state_callback hover State0 (io_at 2000000000 Raises))"
  using last_request_set_by_returned_calls [of hover State0 "io_at 2000000000 (Returns False)"]
    last_request_set_by_returned_calls [of hover State0 "io_at 2000000000 Raises"]
  by (simp add: run_eval returned_def)

text \<open>
  Claim C9, as the code has it. The claim has both requests sent in the one update.
  When the call of \<^verbatim>\<open>set_mode\<close> raises, the update ends there and no arm request is
  sent.
\<close>

theorem arm_skipped_when_mode_raises_counterexample:
  "fly hover
   \<and> now_guard (io_at 2000000000 Raises) - last_request hover > Duration_1_0
   \<and> mode State0 \<noteq> ''OFFBOARD'' \<and> \<not> armed State0
   \<and> map req (calls (state_callback hover State0 (io_at 2000000000 Raises))) = [SetMode 0 ''OFFBOARD'']"
  by (simp add: run_eval)

text \<open>
  Claim C9, amended. In one vehicle-state update with \<open>fly\<close> true, the throttle window
  expired, a reported mode other than OFFBOARD, the vehicle not armed and a call of
  \<^verbatim>\<open>set_mode\<close> that returns, the controller sends the request for the mode OFFBOARD
  and then the arm request, both in that update. The mode request has reset the timer
  by then: \<open>last_request\<close> ends at the reading after the arm request when that call
  returns, and at the reading after the mode request when it raises.
\<close>

theorem offboard_then_arm_same_update:
  assumes "fly self" and "now_guard io - last_request self > Duration_1_0"
    and "mode topic \<noteq> ''OFFBOARD''" and "\<not> armed topic" and "mode_answer io = Returns b"
  shows "calls (state_callback self topic io)
           = [\<lparr>stamp = now_mode io, req = SetMode 0 ''OFFBOARD'', ended = Returns b\<rparr>,
              \<lparr>stamp = now_arm io, req = SetArming True, ended = arm_answer io\<rparr>]
       \<and> last_request (after (state_callback self topic io))
           = (if arm_answer io = Raises then now_mode io else now_arm io)
       \<and> raised (state_callback self topic io) = (arm_answer io = Raises)"
  using assms by (simp add: state_callback_shape mode_call_def arm_call_def)

theorem offboard_then_arm_same_update_witness:
  "fly hover \<and> now_guard (io_at 2000000000 (Returns True)) - last_request hover > Duration_1_0
   \<and> calls (state_callback hover State0 (io_at 2000000000 (Returns True)))
       = [\<lparr>stamp = 2000000001, req = SetMode 0 ''OFFBOARD'', ended = Returns True\<rparr>,
          \<lparr>stamp = 2000000002, req = SetArming True, ended = Returns True\<rparr>]
   \<and> last_request (after (state_callback hover State0 (io_at 2000000000 (Returns True)))) = 2000000002"
proof -
  have h: "fly hover" "now_guard (io_at 2000000000 (Returns True)) - last_request hover > Duration_1_0"
    "mode State0 \<noteq> ''OFFBOARD''" "\<not> armed State0"
    "mode_answer (io_at 2000000000 (Returns True)) = Returns True"
    by (simp_all add: example_defs Duration_1_0_def)
  from offboard_then_arm_same_update [OF h] h show ?thesis by (simp add: io_at_def)
qed

section \<open>Construction\<close>

lemma publish_burst_replicate: "publish_burst n p = replicate n (Sent (Publish p))"
  by (induction n) simp_all

text \<open>
  Claim C6, as the code has it. The claim speaks of a configurable count that defaults
  to 100. The constructor has one argument, the namespace, and the loop bound is the
  literal 100: no namespace and no time of construction gives another count.
\<close>

theorem burst_count_configurable_counterexample:
  "\<not> (\<exists>namespace now. length (filter is_publish (snd (Mav_init namespace now))) \<noteq> 100)"
  by (simp add: Mav_init_def publish_burst_replicate)

text \<open>
  Claim C6, amended. Right after the namespace is set and the setpoint publisher is
  created, and before any service proxy or subscriber exists, the constructor publishes
  exactly 100 setpoints, each equal to the target pose of the new controller, which is
  the default pose; the count is fixed.
\<close>

theorem init_burst_fixed_hundred:
  "snd (Mav_init namespace now)
     = [Set_namespace namespace, Get_pub_position_local 10]
       @ replicate 100 (Sent (Publish (target_pose (fst (Mav_init namespace now)))))
       @ [Service_proxy ''cmd/arming'', Service_proxy ''mavros/cmd/command'',
          Service_proxy ''set_mode'', Subscriber ''state'', Subscriber ''local_position/pose'',
          Subscriber ''local_position/velocity_body'']
   \<and> target_pose (fst (Mav_init namespace now)) = PoseStamped0"
  by (simp add: Mav_init_def publish_burst_replicate Let_def)

section \<open>Commands of the mission layer\<close>

text \<open>
  The operations outside the state machine leave \<open>fly\<close>, \<open>UAV_state\<close> and
  \<open>last_request\<close> as they are, which is why \<open>run\<close> need not list them.
\<close>

lemma throttle_state_kept:
  "fly (fst (local_position_callback self p)) = fly self
   \<and> UAV_state (fst (local_position_callback self p)) = UAV_state self
   \<and> last_request (fst (local_position_callback self p)) = last_request self"
  "fly (fst (local_velocity_callback self v)) = fly self
   \<and> UAV_state (fst (local_velocity_callback self v)) = UAV_state self
   \<and> last_request (fst (local_velocity_callback self v)) = last_request self"
  "fly (fst (set_target_pose self p)) = fly self
   \<and> UAV_state (fst (set_target_pose self p)) = UAV_state self
   \<and> last_request (fst (set_target_pose self p)) = last_request self"
  by (simp_all add: local_position_callback_def local_velocity_callback_def
      set_target_pose_def Let_def)

text \<open>
  The constructor sets \<open>max_speed\<close> to 1 and no method writes it, so the limiter always
  runs with the step bound 1.
\<close>

lemma max_speed_init: "max_speed (fst (Mav_init namespace now)) = Fin 1"
  by (simp add: Mav_init_def)

lemma max_speed_kept:
  "max_speed (after (state_callback self topic io)) = max_speed self"
  "max_speed (fst (local_position_callback self p)) = max_speed self"
  "max_speed (fst (local_velocity_callback self v)) = max_speed self"
  "max_speed (fst (set_target_pose self p)) = max_speed self"
  "max_speed (fst (set_target_pos o2y y2o self pos)) = max_speed self"
  "max_speed (fst (set_target_yaw y2o self yaw)) = max_speed self"
  "max_speed (land self) = max_speed self"
  "max_speed (takeoff self) = max_speed self"
  "max_speed (fst (deploy_parachute self)) = max_speed self"
  by (simp_all add: state_callback_def set_states_def arm_and_offboard_def autoland_def
      call_then_stamp_simps quiet_simps
      local_position_callback_def local_velocity_callback_def set_target_pose_def
      set_target_pos_def set_target_yaw_def land_def takeoff_def deploy_parachute_def Let_def)

text \<open>
  Claim C7. \<open>set_target_pos\<close> puts the given point into the target and gives it the
  orientation of the yaw angle read from the previous target orientation, so that the
  yaw read back is the previous one whenever the two conversions make a round trip at
  it; \<open>set_target_yaw\<close> keeps the previous target position and gives it the orientation
  of the given yaw angle, which is read back whenever the conversions make a round trip
  at it; \<open>set_target_pose\<close> stores the given pose. Each leaves every other field of the
  controller as it is, and none publishes a setpoint or sends any request.
\<close>

theorem set_target_frame:
  "set_target_pos o2y y2o self pos =
     (self\<lparr>target_pose := \<lparr>pose = \<lparr>position = pos,
        orientation = y2o (o2y (orientation (pose (target_pose self))))\<rparr>\<rparr>\<rparr>, [])
   \<and> set_target_yaw y2o self yaw =
     (self\<lparr>target_pose := \<lparr>pose = \<lparr>position = position (pose (target_pose self)),
        orientation = y2o yaw\<rparr>\<rparr>\<rparr>, [])
   \<and> set_target_pose self p = (self\<lparr>target_pose := p\<rparr>, [])
   \<and> position (pose (target_pose (fst (set_target_pos o2y y2o self pos)))) = pos
   \<and> (round_trip o2y y2o (o2y (orientation (pose (target_pose self)))) \<longrightarrow>
        o2y (orientation (pose (target_pose (fst (set_target_pos o2y y2o self pos)))))
          = o2y (orientation (pose (target_pose self))))
   \<and> position (pose (target_pose (fst (set_target_yaw y2o self yaw))))
       = position (pose (target_pose self))
   \<and> (round_trip o2y y2o yaw \<longrightarrow>
        o2y (orientation (pose (target_pose (fst (set_target_yaw y2o self yaw))))) = yaw)"
  by (simp add: set_target_pos_def set_target_yaw_def set_target_pose_def
      create_setpoint_message_pos_yaw_def round_trip_def)

theorem set_target_frame_witness:
  "round_trip quat_z yaw_in_z (Fin 1)
   \<and> quat_z (orientation (pose (target_pose (fst (set_target_yaw yaw_in_z hover (Fin 1)))))) = Fin 1
   \<and> round_trip quat_z yaw_in_z
        (quat_z (orientation (pose (target_pose (fst (set_target_yaw yaw_in_z hover (Fin 1)))))))
   \<and> quat_z (orientation (pose (target_pose
        (fst (set_target_pos quat_z yaw_in_z (fst (set_target_yaw yaw_in_z hover (Fin 1)))
               \<lparr>pt_x = Fin 2, pt_y = Fin 0, pt_z = Fin 0\<rparr>))))) = Fin 1"
proof -
  let ?turned = "fst (set_target_yaw yaw_in_z hover (Fin 1))"
  have r: "round_trip quat_z yaw_in_z y" for y
    by (simp add: round_trip_def yaw_in_z_def)
  have a: "quat_z (orientation (pose (target_pose ?turned))) = Fin 1"
    using set_target_frame [of quat_z yaw_in_z hover _ "Fin 1"] r by (simp add: yaw_in_z_def)
  have b: "quat_z (orientation (pose (target_pose
        (fst (set_target_pos quat_z yaw_in_z ?turned \<lparr>pt_x = Fin 2, pt_y = Fin 0, pt_z = Fin 0\<rparr>)))))
      = quat_z (orientation (pose (target_pose ?turned)))"
    using set_target_frame [of quat_z yaw_in_z ?turned "\<lparr>pt_x = Fin 2, pt_y = Fin 0, pt_z = Fin 0\<rparr>"] r
    by blast
  from a b r show ?thesis by simp
qed

text \<open>
  Claim C10. \<open>deploy_parachute\<close> makes exactly one call on the command channel, with
  command code 185 and first parameter 1, and returns the controller with every field
  unchanged.
\<close>

theorem deploy_parachute_single_command:
  "deploy_parachute self = (self, [SetCommand 185 1])"
  by (simp add: deploy_parachute_def)

end
